theory Spec2Isabelle
  imports Main
begin

section \<open>JavaScript values, errors and documents\<close>

text \<open>
  The values that the code reads from token payloads, request bodies and Firestore
  documents are untyped. Numbers are integers here: the code stores and compares
  millisecond timestamps and lengths only.
\<close>

datatype jsval = Undefined | Null | JBool bool | JNum int | JStr string

text \<open>The truth value JavaScript gives to a value in \<open>!v\<close>, \<open>a || b\<close> and \<open>a && b\<close>.\<close>

fun truthy :: "jsval \<Rightarrow> bool" where
  "truthy Undefined = False"
| "truthy Null = False"
| "truthy (JBool b) = b"
| "truthy (JNum n) = (n \<noteq> 0)"
| "truthy (JStr s) = (s \<noteq> [])"

text \<open>
  What the code throws: \<open>new Error(msg)\<close>, \<open>createError(status, msg)\<close> of
  http-errors, a \<open>TypeError\<close> of the runtime, the three error classes of
  \<open>jsonwebtoken\<close>, a request that Firestore rejects, and the plain \<open>Error\<close>,
  without a status, with which the Firestore client refuses the argument of
  \<open>doc\<close> before it sends anything.
\<close>

datatype js_error =
    Error string
  | HttpError nat string
  | TypeError string
  | JsonWebTokenError string
  | TokenExpiredError
  | NotBeforeError
  | FirestoreError string
  | DocumentPathError

text \<open>
  A Firestore document is a finite set of named fields; \<open>snapshot.get(field)\<close> is
  \<open>undefined\<close> when the document or the field does not exist.
\<close>

type_synonym document = "string \<rightharpoonup> jsval"

definition snapshot_get :: "document option \<Rightarrow> string \<Rightarrow> jsval" where
  "snapshot_get snapshot field =
     (case snapshot of
        None \<Rightarrow> Undefined
      | Some doc \<Rightarrow> (case doc field of None \<Rightarrow> Undefined | Some v \<Rightarrow> v))"

text \<open>
  \<open>collection.doc(path)\<close> gives the reference of a document, or throws. The
  functions that call it take it as the parameter \<open>doc\<close>, from the value passed to the
  reference; a collection is a map from references to documents.

  \<open>documentPath\<close> is \<open>doc\<close> as the Firestore client for Node.js implements it for a
  top-level collection: it refuses a value that is not a string, the empty string, a
  path that contains \<open>//\<close>, and a path whose non-empty segments are even in number
  (none, or a path that names a collection below a document); otherwise the reference
  is the list of the non-empty segments. It is used for concrete evaluations.
\<close>

fun split_slash :: "string \<Rightarrow> string \<times> string list" where
  "split_slash [] = ([], [])"
| "split_slash (c # cs) =
     (case split_slash cs of
        (p, ps) \<Rightarrow> if c = CHR ''/'' then ([], p # ps) else (c # p, ps))"

fun double_slash :: "string \<Rightarrow> bool" where
  "double_slash (a # b # cs) = ((a = CHR ''/'' \<and> b = CHR ''/'') \<or> double_slash (b # cs))"
| "double_slash _ = False"

definition documentPath :: "jsval \<Rightarrow> js_error + string list" where
  "documentPath v =
     (case v of
        JStr path \<Rightarrow>
          if path = [] \<or> double_slash path then Inl DocumentPathError
          else (let segments = filter (\<lambda>s. s \<noteq> [])
                                 (fst (split_slash path) # snd (split_slash path))
                in if even (length segments) then Inl DocumentPathError else Inr segments)
      | _ \<Rightarrow> Inl DocumentPathError)"

text \<open>
  The table \<open>ERROR_CODES\<close> is exported by the module \<open>./validators\<close>, whose
  strings this development does not fix; the functions below take the table as a
  parameter.
\<close>

record ERROR_CODES =
  MISSING_HEADER :: string
  MISSING_BEARER :: string
  INVALID_FIREBASE_TOKEN :: string
  DEVICE_EXISTS :: string
  PHONE_NUMBER_NOT_VERIFIED :: string
  MISSING_PARAMATER :: string
  INVALID_ACCESS_TOKEN :: string

text \<open>
  Modelled from the spec: the contents of the table \<open>ERROR_CODES\<close> of \<open>./validators\<close>,
  with the code names of the specification's status table and the form
  \<open>MissingParameter:<fieldName>\<close> of a missing-parameter message. It is used for
  concrete evaluations only.
\<close>

definition ERROR_CODES_spec :: ERROR_CODES where
  "ERROR_CODES_spec =
     \<lparr>MISSING_HEADER = ''MissingHeader'',
      MISSING_BEARER = ''MissingBearer'',
      INVALID_FIREBASE_TOKEN = ''InvalidIdentityToken'',
      DEVICE_EXISTS = ''DeviceExists'',
      PHONE_NUMBER_NOT_VERIFIED = ''PhoneNumberNotVerified'',
      MISSING_PARAMATER = ''MissingParameter:'',
      INVALID_ACCESS_TOKEN = ''InvalidAccessToken''\<rparr>"


section \<open>Available authentication methods\<close>

text \<open>
  The object \<open>availableMethods\<close> is built at three places of the source. Its keys
  \<open>SMS\<close>, \<open>QR\<close> and \<open>SSID\<close> are always present; \<open>Geolocation\<close> and \<open>Smart\<close> are
  present at some places only, so they are optional fields (\<open>None\<close>: the key is absent
  from the object).

  \<open>SMS\<close> holds the value read from the field \<open>phoneVerified\<close> of the user
  document, as it is. The device counts are the lengths of the arrays returned by
  \<open>getAllDevices\<close> and \<open>getAllMobileDevices\<close>; \<open>desktopDeviceCount\<close> is their
  difference as a JavaScript number, which is an integer that may be negative.
\<close>

record availableMethods =
  SMS :: jsval
  QR :: bool
  SSID :: bool
  Geolocation :: "bool option"
  Smart :: "bool option"

definition desktopDeviceCount :: "nat \<Rightarrow> nat \<Rightarrow> int" where
  "desktopDeviceCount totalDeviceCount mobileDeviceCount =
     int totalDeviceCount - int mobileDeviceCount"

text \<open>\<open>VerifyUpdatePhoneNumber\<close> (userMiddleware.js, lines 76 to 88).\<close>

definition availableMethods_VerifyUpdatePhoneNumber ::
  "jsval \<Rightarrow> nat \<Rightarrow> nat \<Rightarrow> availableMethods" where
  "availableMethods_VerifyUpdatePhoneNumber phoneVerified totalDeviceCount mobileDeviceCount =
     (let am = \<lparr>SMS = phoneVerified, QR = False, SSID = False,
                 Geolocation = Some False, Smart = None\<rparr>;
          desktop = desktopDeviceCount totalDeviceCount mobileDeviceCount;
          am = am\<lparr>QR := 0 < mobileDeviceCount\<rparr>;
          am = am\<lparr>SSID := 0 < desktop \<and> 0 < mobileDeviceCount\<rparr>;
          am = am\<lparr>Geolocation := Some (0 < mobileDeviceCount)\<rparr>
      in am)"

text \<open>The handler of \<open>GET /basicInfo\<close> (userRoutes.js, lines 41 to 55).\<close>

definition availableMethods_basicInfo ::
  "jsval \<Rightarrow> nat \<Rightarrow> nat \<Rightarrow> availableMethods" where
  "availableMethods_basicInfo phoneVerified totalDeviceCount mobileDeviceCount =
     (let am = \<lparr>SMS = phoneVerified, QR = False, SSID = False,
                 Geolocation = None, Smart = None\<rparr>;
          desktop = desktopDeviceCount totalDeviceCount mobileDeviceCount;
          am = am\<lparr>QR := 0 < mobileDeviceCount\<rparr>;
          am = am\<lparr>SSID := 0 < desktop \<and> 0 < mobileDeviceCount\<rparr>;
          am = am\<lparr>Geolocation := Some (0 < desktop \<and> 0 < mobileDeviceCount)\<rparr>
      in if SSID am then am\<lparr>Smart := Some True\<rparr> else am)"

text \<open>
  The handler of \<open>POST /getAvailableAuthMethods\<close> (userRoutes.js, lines 280 to 301).
  It does not read the account: \<open>SMS\<close> is the literal \<open>true\<close>.
\<close>

definition availableMethods_getAvailableAuthMethods ::
  "nat \<Rightarrow> nat \<Rightarrow> availableMethods" where
  "availableMethods_getAvailableAuthMethods totalDeviceCount mobileDeviceCount =
     (let am = \<lparr>SMS = JBool True, QR = False, SSID = False,
                 Geolocation = None, Smart = None\<rparr>;
          desktop = desktopDeviceCount totalDeviceCount mobileDeviceCount
      in if 0 < desktop \<and> 0 < mobileDeviceCount then am\<lparr>QR := True, SSID := True\<rparr>
         else if 0 < mobileDeviceCount then am\<lparr>QR := True\<rparr>
         else am)"


section \<open>The access token\<close>

text \<open>
  The part of an Express request that the checks read: the cookie \<open>accessToken\<close>
  of \<open>req.cookies\<close> (\<open>Undefined\<close> when the cookie is not sent), \<open>req.body.userId\<close>,
  \<open>req.body.phoneNumber\<close> and the route parameter \<open>req.params.phoneNumber\<close>.
  \<open>VerifyFirebaseToken\<close> sets \<open>req.body.userId\<close> to the uid of the identity provider
  when it passes; when it fails, the later checks of the route still run, and the field
  is what the client sent in the body, or \<open>Undefined\<close>.
\<close>

record request =
  cookies_accessToken :: jsval
  body_userId :: jsval
  body_phoneNumber :: jsval
  params_phoneNumber :: string

text \<open>
  The payload that \<open>jwt.verify\<close> returns. A key that the payload does not have
  reads as \<open>Undefined\<close>.
\<close>

record accessData =
  userId :: jsval
  isAccessToken :: jsval

text \<open>
  \<open>VerifyAccessToken\<close> (userMiddleware.js, lines 49 to 66). The parameter
  \<open>jwt_verify\<close> stands for \<open>jwt.verify(\<cdot>, process.env.JWT_SECRET_KEY)\<close> of the
  library \<open>jsonwebtoken\<close>: it returns the payload, or throws when the token is
  missing or malformed, when its signature does not validate, and when it is expired.
  The \<open>throw\<close> inside the \<open>try\<close> block is caught by the same \<open>catch\<close>, which throws
  a new error with the same code.
\<close>

definition VerifyAccessToken ::
  "ERROR_CODES \<Rightarrow> (jsval \<Rightarrow> js_error + accessData) \<Rightarrow> request \<Rightarrow> js_error + bool" where
  "VerifyAccessToken ec jwt_verify req =
     (let accessToken = cookies_accessToken req;
          tried = (case jwt_verify accessToken of
                     Inl error \<Rightarrow> Inl error
                   | Inr accessData \<Rightarrow>
                     if userId accessData \<noteq> body_userId req
                        \<or> \<not> truthy (isAccessToken accessData)
                     then Inl (Error (INVALID_ACCESS_TOKEN ec))
                     else Inr ())
      in case tried of
           Inl error \<Rightarrow> Inl (Error (INVALID_ACCESS_TOKEN ec))
         | Inr _ \<Rightarrow> Inr True)"

text \<open>
  \<open>VerifyUpdatePhoneNumber\<close> (userMiddleware.js, lines 71 to 97). The three reads
  are parameters, each from the value of \<open>req.body.userId\<close> to the value read or the
  error thrown (by \<open>doc\<close>, for a user identifier that it refuses, or by the request):
  \<open>get_phoneVerified\<close> is the read of the field \<open>phoneVerified\<close> of the user document
  (line 76), \<open>getAllDevices\<close> and \<open>getAllMobileDevices\<close> are the two reads of
  \<open>DevicesDb.read\<close> (lines 81 and 82). They run in this order, and the first error
  is the error of the check. The function never reads \<open>req.params.phoneNumber\<close>.
\<close>

definition VerifyUpdatePhoneNumber ::
  "ERROR_CODES \<Rightarrow> (jsval \<Rightarrow> js_error + accessData) \<Rightarrow> (jsval \<Rightarrow> js_error + jsval)
     \<Rightarrow> (jsval \<Rightarrow> js_error + 'd list) \<Rightarrow> (jsval \<Rightarrow> js_error + 'd list)
     \<Rightarrow> request \<Rightarrow> js_error + bool" where
  "VerifyUpdatePhoneNumber ec jwt_verify get_phoneVerified getAllDevices getAllMobileDevices req =
     (let uid = body_userId req
      in case get_phoneVerified uid of
           Inl error \<Rightarrow> Inl error
         | Inr phoneVerified \<Rightarrow>
        (case getAllDevices uid of
           Inl error \<Rightarrow> Inl error
         | Inr allDevices \<Rightarrow>
        (case getAllMobileDevices uid of
           Inl error \<Rightarrow> Inl error
         | Inr mobileDevices \<Rightarrow>
             (let totalDeviceCount = length allDevices;
                  mobileDeviceCount = length mobileDevices;
                  am = availableMethods_VerifyUpdatePhoneNumber
                         phoneVerified totalDeviceCount mobileDeviceCount
              in if (truthy (SMS am) \<or> QR am \<or> SSID am \<or> Geolocation am = Some True)
                    \<and> truthy (body_phoneNumber req)
                 then VerifyAccessToken ec jwt_verify req
                 else Inr True))))"


section \<open>The error handler and the validation chains\<close>

text \<open>
  \<open>message.split(":")\<close> always has a first element; the pair is that element and
  the list of the others.
\<close>

fun split_colon :: "string \<Rightarrow> string \<times> string list" where
  "split_colon [] = ([], [])"
| "split_colon (c # cs) =
     (case split_colon cs of
        (p, ps) \<Rightarrow> if c = CHR '':'' then ([], p # ps) else (c # p, ps))"

text \<open>\<open>errorCode + param\<close>, where \<open>param\<close> is \<open>undefined\<close> when the message has no colon.\<close>

definition plus_param :: "string \<Rightarrow> string option \<Rightarrow> string" where
  "plus_param errorCode param =
     errorCode @ (case param of None \<Rightarrow> ''undefined'' | Some p \<Rightarrow> p)"

record response =
  status :: nat
  json :: "(string \<times> jsval) list"

datatype outcome = Next | Sent response | Threw js_error

text \<open>
  \<open>AuthValidate\<close> (userMiddleware.js, lines 108 to 163). The argument \<open>errors\<close> is
  \<open>validationResult(req).array()\<close>, as the list of the messages. The cases of the
  \<open>switch\<close> are tried in the order of the source. The case of \<open>DEVICE_EXISTS\<close> calls
  \<open>res.staus\<close>, which is not a method of the response: the call throws a
  \<open>TypeError\<close> and nothing is sent.
\<close>

definition AuthValidate :: "ERROR_CODES \<Rightarrow> string list \<Rightarrow> outcome" where
  "AuthValidate ec errors =
     (case errors of
        [] \<Rightarrow> Next
      | message # _ \<Rightarrow>
          (let errorCode = fst (split_colon message);
               param = (case snd (split_colon message) of [] \<Rightarrow> None | p # _ \<Rightarrow> Some p)
           in if errorCode = MISSING_HEADER ec then
                Sent \<lparr>status = 403, json = [(''error'', JStr errorCode)]\<rparr>
              else if errorCode = MISSING_BEARER ec then
                Sent \<lparr>status = 403, json = [(''error'', JStr errorCode)]\<rparr>
              else if errorCode = INVALID_FIREBASE_TOKEN ec then
                Sent \<lparr>status = 400, json = [(''error'', JStr errorCode)]\<rparr>
              else if errorCode = DEVICE_EXISTS ec then
                Threw (TypeError ''res.staus is not a function'')
              else if errorCode = PHONE_NUMBER_NOT_VERIFIED ec then
                Sent \<lparr>status = 409, json = [(''error'', JStr errorCode)]\<rparr>
              else if errorCode = fst (split_colon (MISSING_PARAMATER ec)) then
                Sent \<lparr>status = 412,
                      json = [(''success'', JBool False),
                              (''error'', JStr (plus_param errorCode param))]\<rparr>
              else if errorCode = INVALID_ACCESS_TOKEN ec then
                Sent \<lparr>status = 417,
                      json = [(''success'', JBool False), (''error'', JStr errorCode)]\<rparr>
              else
                Sent \<lparr>status = 400, json = [(''error'', JStr errorCode)]\<rparr>))"

text \<open>
  A route is declared as \<open>UserRouter.get(path, Validator(), AuthValidate, handler)\<close>,
  where \<open>Validator()\<close> is an array of validation chains of express-validator. Express
  runs the middlewares of a route in the order of the declaration. A validation chain,
  run as a middleware, records the messages of its failed validators in the request and
  then calls \<open>next()\<close>, whether it failed or not: this is how \<open>AuthValidate\<close>, which
  comes after the chains, gets to read the failures with \<open>validationResult(req)\<close>.

  A check is one chain: from the state (the request and whatever else its validators
  read or change) it gives the messages of its failures, none when it passes, and the
  new state.
\<close>

type_synonym 's check = "'s \<Rightarrow> string list \<times> 's"

fun run_chains :: "'s check list \<Rightarrow> 's \<Rightarrow> string list \<times> 's" where
  "run_chains [] s = ([], s)"
| "run_chains (c # cs) s =
     (case c s of
        (msgs, s') \<Rightarrow> (case run_chains cs s' of (rest, s'') \<Rightarrow> (msgs @ rest, s'')))"

text \<open>The chains of a route followed by \<open>AuthValidate\<close>.\<close>

definition validate_route :: "ERROR_CODES \<Rightarrow> 's check list \<Rightarrow> 's \<Rightarrow> outcome \<times> 's" where
  "validate_route ec validators s =
     (case run_chains validators s of (errors, s') \<Rightarrow> (AuthValidate ec errors, s'))"


text \<open>
  Inside one chain, \<open>.bail()\<close> stops the chain when a validator before it, in the
  same chain, has failed; it does not reach the other chains of the route. A chain is
  a list of steps, run in order with the messages collected so far.
\<close>

datatype 's step = Validator "'s check" | Bail

fun run_steps :: "'s step list \<Rightarrow> string list \<Rightarrow> 's \<Rightarrow> string list \<times> 's" where
  "run_steps [] msgs s = (msgs, s)"
| "run_steps (Validator v # steps) msgs s =
     (case v s of (new, s') \<Rightarrow> run_steps steps (msgs @ new) s')"
| "run_steps (Bail # steps) msgs s =
     (if msgs \<noteq> [] then (msgs, s) else run_steps steps msgs s)"

definition validation_chain :: "'s step list \<Rightarrow> 's check" where
  "validation_chain steps s = run_steps steps [] s"


section \<open>The hashes of user identifiers\<close>

text \<open>
  A document of the collection \<open>UsersHash\<close>, as \<open>createUserHash\<close>, its only writer,
  stores it. The collection maps document references to documents.
\<close>

record userHash =
  hash_userId :: string
  hash_timestamp :: int
  hash_secret :: string

type_synonym 'r UsersHash = "'r \<rightharpoonup> userHash"

text \<open>
  \<open>createUserHash\<close> (lines 55 to 62 of the database module for users). The parameter
  \<open>getHashSha256\<close> is the function of the library \<open>cryptlib\<close>, and \<open>currentTime\<close> is
  \<open>new Date().getTime()\<close>, in milliseconds. The function throws what \<open>doc\<close> throws.
\<close>

definition createUserHash ::
  "(jsval \<Rightarrow> js_error + 'r) \<Rightarrow> (string \<Rightarrow> nat \<Rightarrow> string) \<Rightarrow> int \<Rightarrow> 'r UsersHash
     \<Rightarrow> string \<Rightarrow> string \<Rightarrow> js_error + 'r UsersHash" where
  "createUserHash doc getHashSha256 currentTime UsersHashRef uid secret =
     (let hashedUserId = getHashSha256 (uid @ ''||'' @ secret) 64
      in case doc (JStr hashedUserId) of
           Inl error \<Rightarrow> Inl error
         | Inr ref \<Rightarrow>
             Inr (UsersHashRef(ref \<mapsto>
               \<lparr>hash_userId = uid, hash_timestamp = currentTime, hash_secret = secret\<rparr>)))"

text \<open>
  \<open>getUserIdFromHash\<close> (lines 152 to 170 of the same module) awaits Firestore twice:
  the read of line 154, and the delete of line 162 or 166. Other calls may run
  between the two, so the function is modelled in two steps.

  The first step is line 154: the reference of the hash, and the snapshot of the
  document as the collection holds it at that time (\<open>None\<close>: \<open>user.exists\<close> is
  false), or the error of \<open>doc\<close>.
\<close>

definition getUserIdFromHash_get ::
  "(jsval \<Rightarrow> js_error + 'r) \<Rightarrow> 'r UsersHash \<Rightarrow> jsval \<Rightarrow> js_error + 'r \<times> userHash option" where
  "getUserIdFromHash_get doc UsersHashRef hashedUserId =
     (case doc hashedUserId of
        Inl error \<Rightarrow> Inl error
      | Inr ref \<Rightarrow> Inr (ref, UsersHashRef ref))"

text \<open>
  The second step is lines 155 to 168, from the snapshot of the first step and on the
  collection as it is when the call goes on: the result or the error thrown, and the
  collection afterwards.
\<close>

definition getUserIdFromHash_rest ::
  "int \<Rightarrow> 'r \<Rightarrow> userHash option \<Rightarrow> 'r UsersHash \<Rightarrow> (js_error + string) \<times> 'r UsersHash" where
  "getUserIdFromHash_rest currentTime ref snapshot UsersHashRef =
     (case snapshot of
        None \<Rightarrow> (Inl (HttpError 401 ''User could not be retrieved.''), UsersHashRef)
      | Some user \<Rightarrow>
          if currentTime - hash_timestamp user > 60000
          then (Inl (HttpError 410 ''Session timeout.''), UsersHashRef(ref := None))
          else (Inr (hash_userId user), UsersHashRef(ref := None)))"

text \<open>A call during which nothing else touches the collection.\<close>

definition getUserIdFromHash ::
  "(jsval \<Rightarrow> js_error + 'r) \<Rightarrow> int \<Rightarrow> 'r UsersHash \<Rightarrow> jsval
     \<Rightarrow> (js_error + string) \<times> 'r UsersHash" where
  "getUserIdFromHash doc currentTime UsersHashRef hashedUserId =
     (case getUserIdFromHash_get doc UsersHashRef hashedUserId of
        Inl error \<Rightarrow> (Inl error, UsersHashRef)
      | Inr (ref, snapshot) \<Rightarrow> getUserIdFromHash_rest currentTime ref snapshot UsersHashRef)"


section \<open>Updating the phone number\<close>

text \<open>
  \<open>updatePhoneNumber\<close> (lines 190 to 201 of the database module for users).
  \<open>update\<close> of Firestore changes the named fields of an existing document and is
  rejected when the document does not exist; the function then throws the error again.
  On success it returns the time of the write.
\<close>

definition updatePhoneNumber ::
  "(jsval \<Rightarrow> js_error + 'r) \<Rightarrow> int \<Rightarrow> ('r \<rightharpoonup> document) \<Rightarrow> jsval \<Rightarrow> string
     \<Rightarrow> (js_error + int) \<times> ('r \<rightharpoonup> document)" where
  "updatePhoneNumber doc writeTime Users uid phoneNumber =
     (case doc uid of
        Inl error \<Rightarrow> (Inl error, Users)
      | Inr ref \<Rightarrow>
          (case Users ref of
             None \<Rightarrow> (Inl (FirestoreError ''NOT_FOUND''), Users)
           | Some document \<Rightarrow>
               (Inr writeTime,
                Users(ref \<mapsto> document(''phoneNumber'' \<mapsto> JStr phoneNumber,
                                        ''phoneVerified'' \<mapsto> JBool False)))))"

text \<open>
  The read of a field of a user document, \<open>(await UsersRef.doc(userId).get()).get(field)\<close>,
  as \<open>VerifyUpdatePhoneNumber\<close> (line 76) and \<open>GetUserFromUID\<close> do it, on the
  collection that \<open>updatePhoneNumber\<close> writes.
\<close>

definition get_field ::
  "(jsval \<Rightarrow> js_error + 'r) \<Rightarrow> ('r \<rightharpoonup> document) \<Rightarrow> string \<Rightarrow> jsval \<Rightarrow> js_error + jsval" where
  "get_field doc Users field uid =
     (case doc uid of
        Inl error \<Rightarrow> Inl error
      | Inr ref \<Rightarrow> Inr (snapshot_get (Users ref) field))"


section \<open>Properties of the available methods\<close>

lemma desktopDeviceCount_sum [simp]:
  "desktopDeviceCount (mobile + desktop) mobile = int desktop"
  by (simp add: desktopDeviceCount_def)



text \<open>
  C2, evaluated at the account of the scenario (verified phone, 2 mobile devices,
  0 desktop devices, so 2 devices in total): \<open>VerifyUpdatePhoneNumber\<close> computes
  \<open>Geolocation = true\<close>, as the claim says, but \<open>/basicInfo\<close>, the place that sends the
  object to the client, computes \<open>Geolocation = false\<close> there, and has no \<open>Smart\<close> key.
\<close>

theorem Geolocation_scenario:
  "availableMethods_VerifyUpdatePhoneNumber (JBool True) 2 2
     = \<lparr>SMS = JBool True, QR = True, SSID = False, Geolocation = Some True, Smart = None\<rparr>
   \<and> availableMethods_basicInfo (JBool True) 2 2
     = \<lparr>SMS = JBool True, QR = True, SSID = False, Geolocation = Some False, Smart = None\<rparr>"
  by (simp add: availableMethods_VerifyUpdatePhoneNumber_def availableMethods_basicInfo_def
      desktopDeviceCount_def)

lemma Geolocation_sites:
  "Geolocation (availableMethods_VerifyUpdatePhoneNumber pv (mobile + desktop) mobile)
     = Some (0 < mobile)"
  "Geolocation (availableMethods_basicInfo pv (mobile + desktop) mobile)
     = Some (0 < mobile \<and> 0 < desktop)"
  "Geolocation (availableMethods_getAvailableAuthMethods (mobile + desktop) mobile) = None"
  by (auto simp: availableMethods_VerifyUpdatePhoneNumber_def availableMethods_basicInfo_def
      availableMethods_getAvailableAuthMethods_def Let_def)



section \<open>Properties of the hashes of user identifiers\<close>

text \<open>
  C3: for every user identifier and secret, \<open>createUserHash\<close> stores, under the digest
  of \<open>userId || "||" || secret\<close>, an entry with the user identifier, the secret and the
  time of creation; and \<open>getUserIdFromHash\<close> of that digest, called while no more than
  60000 milliseconds have passed, returns exactly the user identifier that was stored.
  This holds for every digest that \<open>doc\<close> accepts, as it does the 64 hexadecimal
  characters of SHA-256; for a digest that \<open>doc\<close> refused, \<open>createUserHash\<close> would
  throw its error.
\<close>

theorem createUserHash_then_getUserIdFromHash:
  assumes "resolveTime - putTime \<le> 60000"
  shows "case doc (JStr (getHashSha256 (uid @ ''||'' @ secret) 64)) of
           Inl error \<Rightarrow>
             createUserHash doc getHashSha256 putTime UsersHashRef uid secret = Inl error
         | Inr ref \<Rightarrow>
             createUserHash doc getHashSha256 putTime UsersHashRef uid secret
               = Inr (UsersHashRef(ref \<mapsto>
                   \<lparr>hash_userId = uid, hash_timestamp = putTime, hash_secret = secret\<rparr>))
             \<and> fst (getUserIdFromHash doc resolveTime
                      (UsersHashRef(ref \<mapsto>
                         \<lparr>hash_userId = uid, hash_timestamp = putTime, hash_secret = secret\<rparr>))
                      (JStr (getHashSha256 (uid @ ''||'' @ secret) 64)))
               = Inr uid"
  using assms
  by (simp add: createUserHash_def getUserIdFromHash_def getUserIdFromHash_get_def
      getUserIdFromHash_rest_def split: sum.splits)

lemma documentPath_plain [simp]:
  "documentPath (JStr ''Aterces||1u'') = Inr [''Aterces||1u'']"
  "documentPath (JStr ''h1'') = Inr [''h1'']"
  "documentPath (JStr ''u1'') = Inr [''u1'']"
  by (simp_all add: documentPath_def)

lemma documentPath_refused [simp]:
  "documentPath Undefined = Inl DocumentPathError"
  "documentPath (JStr []) = Inl DocumentPathError"
  "documentPath (JStr ''a/b'') = Inl DocumentPathError"
  by (simp_all add: documentPath_def)

theorem createUserHash_then_getUserIdFromHash_witness:
  "(2000::int) - 1000 \<le> 60000
   \<and> createUserHash documentPath (\<lambda>s n. take n (rev s)) 1000 Map.empty ''u1'' ''secretA''
     = Inr [[''Aterces||1u''] \<mapsto>
             \<lparr>hash_userId = ''u1'', hash_timestamp = 1000, hash_secret = ''secretA''\<rparr>]
   \<and> fst (getUserIdFromHash documentPath 2000
            [[''Aterces||1u''] \<mapsto>
               \<lparr>hash_userId = ''u1'', hash_timestamp = 1000, hash_secret = ''secretA''\<rparr>]
            (JStr ''Aterces||1u''))
     = Inr ''u1''"
  using createUserHash_then_getUserIdFromHash
          [of 2000 1000 documentPath "\<lambda>s n. take n (rev s)" Map.empty "''u1''" "''secretA''"]
  by simp

text \<open>
  C4, as stated, fails in two ways. For the empty hash, which \<open>doc\<close> refuses, the
  second call, like the first, throws the error of \<open>doc\<close>, not the error 401. And
  when two calls overlap, so that both have read the entry (line 154) before either
  deletes it, both return the user identifier: the entry is read twice.
\<close>

theorem getUserIdFromHash_single_use_counterexample:
  "fst (getUserIdFromHash documentPath 2
          (snd (getUserIdFromHash documentPath 1 Map.empty (JStr []))) (JStr []))
     = Inl DocumentPathError
   \<and> getUserIdFromHash_get documentPath
        [[''h1''] \<mapsto> \<lparr>hash_userId = ''u1'', hash_timestamp = 0, hash_secret = ''s''\<rparr>]
        (JStr ''h1'')
     = Inr ([''h1''], Some \<lparr>hash_userId = ''u1'', hash_timestamp = 0, hash_secret = ''s''\<rparr>)
   \<and> fst (getUserIdFromHash_rest 1 [''h1'']
          (Some \<lparr>hash_userId = ''u1'', hash_timestamp = 0, hash_secret = ''s''\<rparr>)
          [[''h1''] \<mapsto> \<lparr>hash_userId = ''u1'', hash_timestamp = 0, hash_secret = ''s''\<rparr>])
     = Inr ''u1''
   \<and> fst (getUserIdFromHash_rest 2 [''h1'']
          (Some \<lparr>hash_userId = ''u1'', hash_timestamp = 0, hash_secret = ''s''\<rparr>)
          (snd (getUserIdFromHash_rest 1 [''h1'']
             (Some \<lparr>hash_userId = ''u1'', hash_timestamp = 0, hash_secret = ''s''\<rparr>)
             [[''h1''] \<mapsto> \<lparr>hash_userId = ''u1'', hash_timestamp = 0, hash_secret = ''s''\<rparr>])))
     = Inr ''u1''"
  by (simp add: getUserIdFromHash_def getUserIdFromHash_get_def getUserIdFromHash_rest_def)

text \<open>
  C4, amended: for every hash that \<open>doc\<close> accepts, every state of the collection and
  every pair of times, a call of \<open>getUserIdFromHash\<close> during which nothing else
  touches the collection leaves no entry of the hash behind, whichever path it took,
  and a call with the same hash that starts after it has ended fails with the error
  401 "User could not be retrieved." (the specification's \<open>NotFound\<close>); for a hash that
  \<open>doc\<close> refuses, the call throws the error of \<open>doc\<close> and leaves the collection as it
  is.
\<close>

theorem getUserIdFromHash_single_use:
  "case doc h of
     Inl error \<Rightarrow> getUserIdFromHash doc t1 UsersHashRef h = (Inl error, UsersHashRef)
   | Inr ref \<Rightarrow>
       snd (getUserIdFromHash doc t1 UsersHashRef h) ref = None
       \<and> fst (getUserIdFromHash doc t2 (snd (getUserIdFromHash doc t1 UsersHashRef h)) h)
         = Inl (HttpError 401 ''User could not be retrieved.'')"
  by (simp add: getUserIdFromHash_def getUserIdFromHash_get_def getUserIdFromHash_rest_def
      split: sum.splits option.splits)

text \<open>
  C5: for every entry that is more than 60000 milliseconds old when it is looked up,
  \<open>getUserIdFromHash\<close> deletes the entry and fails with the error 410 "Session
  timeout." (the specification's \<open>Expired\<close>), and a later call with the same hash fails
  with the error 401 (\<open>NotFound\<close>).
\<close>

theorem getUserIdFromHash_expired:
  assumes "doc h = Inr ref"
    and "UsersHashRef ref = Some user"
    and "currentTime - hash_timestamp user > 60000"
  shows "getUserIdFromHash doc currentTime UsersHashRef h
           = (Inl (HttpError 410 ''Session timeout.''), UsersHashRef(ref := None))
       \<and> fst (getUserIdFromHash doc laterTime (UsersHashRef(ref := None)) h)
           = Inl (HttpError 401 ''User could not be retrieved.'')"
  using assms
  by (simp add: getUserIdFromHash_def getUserIdFromHash_get_def getUserIdFromHash_rest_def)

theorem getUserIdFromHash_expired_witness:
  "fst (getUserIdFromHash documentPath 60001
          [[''h1''] \<mapsto> \<lparr>hash_userId = ''u1'', hash_timestamp = 0, hash_secret = ''s''\<rparr>]
          (JStr ''h1''))
     = Inl (HttpError 410 ''Session timeout.'')
   \<and> snd (getUserIdFromHash documentPath 60001
          [[''h1''] \<mapsto> \<lparr>hash_userId = ''u1'', hash_timestamp = 0, hash_secret = ''s''\<rparr>]
          (JStr ''h1''))
         [''h1''] = None"
  using getUserIdFromHash_expired
          [of documentPath "JStr ''h1''" "[''h1'']"
              "[[''h1''] \<mapsto> \<lparr>hash_userId = ''u1'', hash_timestamp = 0, hash_secret = ''s''\<rparr>]"
              "\<lparr>hash_userId = ''u1'', hash_timestamp = 0, hash_secret = ''s''\<rparr>"
              60001 0]
  by simp

text \<open>At an age of exactly 60000 milliseconds the entry is still returned.\<close>

lemma getUserIdFromHash_boundary:
  "fst (getUserIdFromHash documentPath 60000
          [[''h1''] \<mapsto> \<lparr>hash_userId = ''u1'', hash_timestamp = 0, hash_secret = ''s''\<rparr>]
          (JStr ''h1''))
     = Inr ''u1''"
  by (simp add: getUserIdFromHash_def getUserIdFromHash_get_def getUserIdFromHash_rest_def)


section \<open>Properties of the access token checks\<close>

text \<open>
  C6: for every token and expected user identifier, \<open>VerifyAccessToken\<close> fails with
  the code \<open>INVALID_ACCESS_TOKEN\<close> if and only if \<open>jwt.verify\<close> rejects the token
  (its signature does not validate, or it is expired), or the \<open>userId\<close> of the payload
  differs from the expected one, or the marker \<open>isAccessToken\<close> of the payload is
  absent or false (not truthy); in every other case it succeeds, with the constant
  \<open>true\<close>, which carries no information.
\<close>

theorem VerifyAccessToken_result:
  "(VerifyAccessToken ec jwt_verify req = Inl (Error (INVALID_ACCESS_TOKEN ec)))
     = (case jwt_verify (cookies_accessToken req) of
          Inl error \<Rightarrow> True
        | Inr payload \<Rightarrow> userId payload \<noteq> body_userId req
                          \<or> \<not> truthy (isAccessToken payload))
   \<and> (VerifyAccessToken ec jwt_verify req = Inl (Error (INVALID_ACCESS_TOKEN ec))
      \<or> VerifyAccessToken ec jwt_verify req = Inr True)"
  by (simp add: VerifyAccessToken_def split: sum.splits)

theorem VerifyAccessToken_result_witness:
  "VerifyAccessToken ERROR_CODES_spec
     (\<lambda>t. if t = JStr ''signed-u1''
          then Inr \<lparr>userId = JStr ''u1'', isAccessToken = JBool True\<rparr>
          else Inl (JsonWebTokenError ''invalid signature''))
     \<lparr>cookies_accessToken = JStr ''signed-u1'', body_userId = JStr ''u1'',
      body_phoneNumber = Undefined, params_phoneNumber = ''+15550100''\<rparr>
     \<noteq> Inl (Error (INVALID_ACCESS_TOKEN ERROR_CODES_spec))
   \<and> VerifyAccessToken ERROR_CODES_spec
     (\<lambda>t. if t = JStr ''signed-u1''
          then Inr \<lparr>userId = JStr ''u1'', isAccessToken = JBool True\<rparr>
          else Inl (JsonWebTokenError ''invalid signature''))
     \<lparr>cookies_accessToken = JStr ''signed-u1'', body_userId = JStr ''u2'',
      body_phoneNumber = Undefined, params_phoneNumber = ''+15550100''\<rparr>
     = Inl (Error (INVALID_ACCESS_TOKEN ERROR_CODES_spec))"
  using VerifyAccessToken_result
      [of ERROR_CODES_spec
          "\<lambda>t. if t = JStr ''signed-u1''
               then Inr \<lparr>userId = JStr ''u1'', isAccessToken = JBool True\<rparr>
               else Inl (JsonWebTokenError ''invalid signature'')"
          "\<lparr>cookies_accessToken = JStr ''signed-u1'', body_userId = JStr ''u1'',
            body_phoneNumber = Undefined, params_phoneNumber = ''+15550100''\<rparr>"]
    VerifyAccessToken_result
      [of ERROR_CODES_spec
          "\<lambda>t. if t = JStr ''signed-u1''
               then Inr \<lparr>userId = JStr ''u1'', isAccessToken = JBool True\<rparr>
               else Inl (JsonWebTokenError ''invalid signature'')"
          "\<lparr>cookies_accessToken = JStr ''signed-u1'', body_userId = JStr ''u2'',
            body_phoneNumber = Undefined, params_phoneNumber = ''+15550100''\<rparr>"]
  by simp

text \<open>
  Some method is available in \<open>VerifyUpdatePhoneNumber\<close> exactly when the phone is
  verified or the user has a mobile device.
\<close>

lemma VerifyUpdatePhoneNumber_some_method:
  "(truthy (SMS (availableMethods_VerifyUpdatePhoneNumber pv devices mobile))
      \<or> QR (availableMethods_VerifyUpdatePhoneNumber pv devices mobile)
      \<or> SSID (availableMethods_VerifyUpdatePhoneNumber pv devices mobile)
      \<or> Geolocation (availableMethods_VerifyUpdatePhoneNumber pv devices mobile) = Some True)
   = (truthy pv \<or> 0 < mobile)"
  by (auto simp: availableMethods_VerifyUpdatePhoneNumber_def)

text \<open>
  What \<open>VerifyUpdatePhoneNumber\<close> does when its three reads succeed, in terms of what
  they return, and when one of them throws.
\<close>

lemma VerifyUpdatePhoneNumber_reads:
  assumes "get_phoneVerified (body_userId req) = Inr phoneVerified"
    and "getAllDevices (body_userId req) = Inr allDevices"
    and "getAllMobileDevices (body_userId req) = Inr mobileDevices"
  shows "VerifyUpdatePhoneNumber ec jwt_verify get_phoneVerified getAllDevices
           getAllMobileDevices req
         = (if (truthy phoneVerified \<or> mobileDevices \<noteq> []) \<and> truthy (body_phoneNumber req)
            then VerifyAccessToken ec jwt_verify req
            else Inr True)"
  using assms VerifyUpdatePhoneNumber_some_method
          [of phoneVerified "length allDevices" "length mobileDevices"]
  by (simp add: VerifyUpdatePhoneNumber_def Let_def)

lemma VerifyUpdatePhoneNumber_read_throws:
  assumes "get_phoneVerified (body_userId req) = Inl error"
  shows "VerifyUpdatePhoneNumber ec jwt_verify get_phoneVerified getAllDevices
           getAllMobileDevices req = Inl error"
  using assms by (simp add: VerifyUpdatePhoneNumber_def)

text \<open>
  C8, evaluated where it fails. The route \<open>POST /updatePhone/:phoneNumber\<close> takes
  the new number from \<open>req.params.phoneNumber\<close>, so every request to it attempts to
  change the phone number; the check looks for the number in \<open>req.body.phoneNumber\<close>.
  For every request without that field in its body, whatever number the route carries
  and whatever methods the user has, the check passes without looking at the access
  token.
\<close>

theorem VerifyUpdatePhoneNumber_passes_without_body_phoneNumber:
  assumes "get_phoneVerified (body_userId req) = Inr phoneVerified"
    and "getAllDevices (body_userId req) = Inr allDevices"
    and "getAllMobileDevices (body_userId req) = Inr mobileDevices"
    and "\<not> truthy (body_phoneNumber req)"
  shows "VerifyUpdatePhoneNumber ec jwt_verify get_phoneVerified getAllDevices
           getAllMobileDevices (req\<lparr>params_phoneNumber := newNumber\<rparr>) = Inr True"
  using assms by (simp add: VerifyUpdatePhoneNumber_def Let_def)

text \<open>
  The user below has a verified phone, a mobile and a desktop device; the request
  changes the number to \<open>+15550100\<close> and carries no access token. The check passes,
  where \<open>VerifyAccessToken\<close> fails on the same request.
\<close>

theorem VerifyUpdatePhoneNumber_passes_without_body_phoneNumber_witness:
  "VerifyUpdatePhoneNumber ERROR_CODES_spec
     (\<lambda>t. if t = JStr ''signed-u1''
          then Inr \<lparr>userId = JStr ''u1'', isAccessToken = JBool True\<rparr>
          else Inl (JsonWebTokenError ''jwt must be provided''))
     (get_field documentPath [[''u1''] \<mapsto> [''phoneVerified'' \<mapsto> JBool True]] ''phoneVerified'')
     (\<lambda>u. Inr [''phone'', ''laptop'']) (\<lambda>u. Inr [''phone''])
     \<lparr>cookies_accessToken = Undefined, body_userId = JStr ''u1'',
      body_phoneNumber = Undefined, params_phoneNumber = ''+15550100''\<rparr>
     = Inr True
   \<and> VerifyAccessToken ERROR_CODES_spec
     (\<lambda>t. if t = JStr ''signed-u1''
          then Inr \<lparr>userId = JStr ''u1'', isAccessToken = JBool True\<rparr>
          else Inl (JsonWebTokenError ''jwt must be provided''))
     \<lparr>cookies_accessToken = Undefined, body_userId = JStr ''u1'',
      body_phoneNumber = Undefined, params_phoneNumber = ''+15550100''\<rparr>
     = Inl (Error ''InvalidAccessToken'')"
  using VerifyUpdatePhoneNumber_passes_without_body_phoneNumber
      [of "get_field documentPath [[''u1''] \<mapsto> [''phoneVerified'' \<mapsto> JBool True]]
             ''phoneVerified''"
          "\<lparr>cookies_accessToken = Undefined, body_userId = JStr ''u1'',
            body_phoneNumber = Undefined, params_phoneNumber = ''+15550100''\<rparr>"
          "JBool True"
          "\<lambda>u. Inr [''phone'', ''laptop'']" "[''phone'', ''laptop'']"
          "\<lambda>u. Inr [''phone'']" "[''phone'']"
          ERROR_CODES_spec
          "\<lambda>t. if t = JStr ''signed-u1''
               then Inr \<lparr>userId = JStr ''u1'', isAccessToken = JBool True\<rparr>
               else Inl (JsonWebTokenError ''jwt must be provided'')"
          "''+15550100''"]
  by (simp add: get_field_def snapshot_get_def VerifyAccessToken_def ERROR_CODES_spec_def)

text \<open>
  With the number in the body as well, the same request is refused for want of a
  token; and a request whose \<open>req.body.userId\<close> is absent fails with the error of
  \<open>doc\<close>.
\<close>

lemma VerifyUpdatePhoneNumber_examples:
  "VerifyUpdatePhoneNumber ERROR_CODES_spec
     (\<lambda>t. Inl (JsonWebTokenError ''jwt must be provided''))
     (get_field documentPath [[''u1''] \<mapsto> [''phoneVerified'' \<mapsto> JBool True]] ''phoneVerified'')
     (\<lambda>u. Inr [''phone'', ''laptop'']) (\<lambda>u. Inr [''phone''])
     \<lparr>cookies_accessToken = Undefined, body_userId = JStr ''u1'',
      body_phoneNumber = JStr ''+15550100'', params_phoneNumber = ''+15550100''\<rparr>
     = Inl (Error ''InvalidAccessToken'')"
  "VerifyUpdatePhoneNumber ERROR_CODES_spec
     (\<lambda>t. Inl (JsonWebTokenError ''jwt must be provided''))
     (get_field documentPath [[''u1''] \<mapsto> [''phoneVerified'' \<mapsto> JBool True]] ''phoneVerified'')
     (\<lambda>u. Inr [''phone'', ''laptop'']) (\<lambda>u. Inr [''phone''])
     \<lparr>cookies_accessToken = Undefined, body_userId = Undefined,
      body_phoneNumber = JStr ''+15550100'', params_phoneNumber = ''+15550100''\<rparr>
     = Inl DocumentPathError"
  by (simp_all add: VerifyUpdatePhoneNumber_def get_field_def snapshot_get_def
      availableMethods_VerifyUpdatePhoneNumber_def desktopDeviceCount_def
      VerifyAccessToken_def ERROR_CODES_spec_def)

section \<open>Properties of the error handler and the validation chains\<close>

text \<open>
  The response depends on the first message only: \<open>errors.array()[0]\<close>.
\<close>

lemma AuthValidate_first_only: "AuthValidate ec (m # ms) = AuthValidate ec [m]"
  by (simp add: AuthValidate_def)

lemma validate_route_Cons:
  assumes "A s = (m # ms, s')"
  shows "validate_route ec (A # cs) s = (AuthValidate ec [m], snd (run_chains cs s'))"
proof -
  obtain rest s'' where r: "run_chains cs s' = (rest, s'')"
    by (cases "run_chains cs s'")
  have "validate_route ec (A # cs) s = (AuthValidate ec (m # ms @ rest), s'')"
    by (simp add: validate_route_def assms r)
  then show ?thesis
    using AuthValidate_first_only [of ec m "ms @ rest"] r by simp
qed

text \<open>
  The statuses of the handler, evaluated on one message for each case of the
  \<open>switch\<close> but \<open>DEVICE_EXISTS\<close>, and on a message that no case recognises.
\<close>

lemma AuthValidate_statuses:
  "AuthValidate ERROR_CODES_spec [''MissingHeader'']
     = Sent \<lparr>status = 403, json = [(''error'', JStr ''MissingHeader'')]\<rparr>"
  "AuthValidate ERROR_CODES_spec [''MissingBearer'']
     = Sent \<lparr>status = 403, json = [(''error'', JStr ''MissingBearer'')]\<rparr>"
  "AuthValidate ERROR_CODES_spec [''InvalidIdentityToken'']
     = Sent \<lparr>status = 400, json = [(''error'', JStr ''InvalidIdentityToken'')]\<rparr>"
  "AuthValidate ERROR_CODES_spec [''PhoneNumberNotVerified'']
     = Sent \<lparr>status = 409, json = [(''error'', JStr ''PhoneNumberNotVerified'')]\<rparr>"
  "AuthValidate ERROR_CODES_spec [''MissingParameter: username'']
     = Sent \<lparr>status = 412, json = [(''success'', JBool False),
                                     (''error'', JStr ''MissingParameter username'')]\<rparr>"
  "AuthValidate ERROR_CODES_spec [''InvalidAccessToken'']
     = Sent \<lparr>status = 417, json = [(''success'', JBool False),
                                     (''error'', JStr ''InvalidAccessToken'')]\<rparr>"
  "AuthValidate ERROR_CODES_spec [''Invalid value'']
     = Sent \<lparr>status = 400, json = [(''error'', JStr ''Invalid value'')]\<rparr>"
  by (simp_all add: AuthValidate_def ERROR_CODES_spec_def plus_param_def)

text \<open>
  A trailing \<open>.bail()\<close> changes nothing: no validator of the chain comes after it.
\<close>

lemma run_steps_trailing_Bail:
  "run_steps (steps @ [Bail]) msgs s = run_steps steps msgs s"
  by (induction steps msgs s rule: run_steps.induct) (auto split: prod.splits)

lemma validation_chain_trailing_Bail:
  "validation_chain (steps @ [Bail]) = validation_chain steps"
  by (rule ext) (simp add: validation_chain_def run_steps_trailing_Bail)

text \<open>
  Two chains that end with \<open>.bail()\<close>, like the chains for \<open>username\<close> and \<open>name\<close>
  of \<open>UserRegistrationValidator\<close>: the first fails; the second runs all the same
  (the state counts its runs) and fails too, and its message is not reported.
\<close>

lemma Bail_does_not_stop_the_next_chain:
  "validate_route ERROR_CODES_spec
     [validation_chain [Validator (Pair [''MissingParameter: username'']), Bail],
      validation_chain [Validator (Pair [''MissingParameter: name''] \<circ> Suc), Bail]] 0
   = (Sent \<lparr>status = 412, json = [(''success'', JBool False),
                                   (''error'', JStr ''MissingParameter username'')]\<rparr>, 1)"
  by (simp add: validate_route_def validation_chain_def AuthValidate_def ERROR_CODES_spec_def
      plus_param_def)

text \<open>
  C7, evaluated where it fails: the claim that, when the first check of a chain
  fails, the later checks are never executed. The first check below fails with the
  message \<open>MissingHeader\<close> and leaves the state as it is; the second and the third pass
  and add one to the state, a counter of their runs. The handler reports the first
  failure only, but the counter is 2 at the end: both later checks have run.
\<close>

theorem validate_route_counterexample:
  "validate_route ERROR_CODES_spec
     [Pair [''MissingHeader''], Pair [] \<circ> Suc, Pair [] \<circ> Suc] 0
   = (Sent \<lparr>status = 403, json = [(''error'', JStr ''MissingHeader'')]\<rparr>, 2)"
  by (simp add: validate_route_def AuthValidate_def ERROR_CODES_spec_def)

text \<open>
  What the route does with a chain [A, B, C] whose first check fails: the outcome is
  the one that the error handler gives for the first message of A alone, and B and C
  run, in this order, after A.
\<close>

lemma validate_route_first_failure:
  assumes "A s = (m # ms, s')"
  shows "validate_route ec [A, B, C] s = (AuthValidate ec [m], snd (C (snd (B s'))))"
proof -
  have "snd (run_chains [B, C] s') = snd (C (snd (B s')))"
    by (simp split: prod.splits)
  then show ?thesis
    using validate_route_Cons [of A s m ms s' ec "[B, C]"] assms by simp
qed

text \<open>
  C9, evaluated where it fails: on a message whose code is \<open>DEVICE_EXISTS\<close> (and is
  none of the three codes that the \<open>switch\<close> tries before it) the handler sends no
  response at all, neither the status 401 nor a body: the call \<open>res.staus(401)\<close>
  throws.
\<close>

theorem AuthValidate_DEVICE_EXISTS:
  assumes "fst (split_colon message) = DEVICE_EXISTS ec"
    and "DEVICE_EXISTS ec \<noteq> MISSING_HEADER ec"
    and "DEVICE_EXISTS ec \<noteq> MISSING_BEARER ec"
    and "DEVICE_EXISTS ec \<noteq> INVALID_FIREBASE_TOKEN ec"
  shows "AuthValidate ec (message # errors) = Threw (TypeError ''res.staus is not a function'')"
  using assms by (simp add: AuthValidate_def)

theorem AuthValidate_DEVICE_EXISTS_witness:
  "AuthValidate ERROR_CODES_spec [''DeviceExists'']
     = Threw (TypeError ''res.staus is not a function'')"
  using AuthValidate_DEVICE_EXISTS [of "''DeviceExists''" ERROR_CODES_spec "[]"]
  by (simp add: ERROR_CODES_spec_def)


section \<open>Properties of the phone number update\<close>

text \<open>
  The update succeeds exactly when \<open>doc\<close> accepts the user identifier and the
  document of the user exists.
\<close>

lemma updatePhoneNumber_succeeds_iff:
  "(fst (updatePhoneNumber doc writeTime Users uid phoneNumber) = Inr writeTime)
     = (case doc uid of Inl error \<Rightarrow> False | Inr ref \<Rightarrow> Users ref \<noteq> None)"
  by (simp add: updatePhoneNumber_def split: sum.splits option.splits)




end
